theory Spec2Isabelle
  imports Main
begin

section \<open>Python values\<close>

text \<open>
  The service works on plain dictionaries. A dictionary with a known set of keys is a
  record whose fields say, for each key, whether it is missing or bound to a value.
  A value of Python type \<open>str | None\<close> is a \<open>string option\<close>, \<open>None\<close> being
  Python's \<open>None\<close>.
\<close>

datatype 'a entry = Absent | Present 'a

definition dict_get :: "'a entry \<Rightarrow> 'a \<Rightarrow> 'a" where
  \<comment> \<open>\<open>d.get(key, default)\<close>: the default only when the key is missing.\<close>
  "dict_get e d = (case e of Absent \<Rightarrow> d | Present v \<Rightarrow> v)"

definition truthy :: "string option \<Rightarrow> bool" where
  \<comment> \<open>Truth value of a \<open>str | None\<close>: \<open>None\<close> and the empty string are false.\<close>
  "truthy v = (case v of None \<Rightarrow> False | Some s \<Rightarrow> s \<noteq> [])"

definition str_of :: "string option \<Rightarrow> string" where
  \<comment> \<open>What an f-string writes for a \<open>str | None\<close>.\<close>
  "str_of v = (case v of None \<Rightarrow> ''None'' | Some s \<Rightarrow> s)"

definition or_else :: "string option \<Rightarrow> string \<Rightarrow> string" where
  \<comment> \<open>\<open>a or b\<close> for \<open>a : str | None\<close> and \<open>b : str\<close>.\<close>
  "or_else a b = (case a of None \<Rightarrow> b | Some s \<Rightarrow> if s = [] then b else s)"

section \<open>Message normalisation: \<open>build_messages\<close>\<close>

text \<open>
  The input of \<open>build_messages\<close> is a list of dictionaries with the keys \<open>role\<close>,
  \<open>content\<close> and \<open>images\<close>; an image is a dictionary with the keys
  \<open>data_base64\<close> and \<open>mime_type\<close>. Every key is read with \<open>get\<close>, so every
  key may be missing.
\<close>

record image =
  data_base64 :: "string option entry"
  mime_type :: "string option entry"

record message =
  role :: "string entry"
  content :: "string entry"
  images :: "image list option entry"

datatype part = TextPart string | ImageUrlPart string

datatype content_v = Text string | Parts "part list"

datatype formatted_message = Formatted string content_v

fun formatted_role :: "formatted_message \<Rightarrow> string" where
  "formatted_role (Formatted r c) = r"

definition data_url :: "string option \<Rightarrow> string option \<Rightarrow> string" where
  \<comment> \<open>\<open>f"data:{mime_type};base64,{b64}"\<close>\<close>
  "data_url mt b64 = ''data:'' @ str_of mt @ '';base64,'' @ str_of b64"

fun add_images :: "image list \<Rightarrow> part list \<Rightarrow> part list" where
  \<comment> \<open>The loop \<open>for img in images\<close>, appending to \<open>content_parts\<close>.\<close>
  "add_images [] content_parts = content_parts"
| "add_images (img # rest) content_parts =
     (let b64 = dict_get (data_base64 img) None;
          mt = dict_get (mime_type img) (Some ''image/jpeg'')
      in if truthy b64
         then add_images rest (content_parts @ [ImageUrlPart (data_url mt b64)])
         else add_images rest content_parts)"

definition format_message :: "message \<Rightarrow> formatted_message" where
  \<comment> \<open>The body of the loop \<open>for msg in messages\<close>.\<close>
  "format_message msg =
     (let r = dict_get (role msg) ''user'';
          c = dict_get (content msg) [];
          imgs = (case dict_get (images msg) (Some []) of None \<Rightarrow> [] | Some l \<Rightarrow> l)
      in if imgs = [] then Formatted r (Text c)
         else Formatted r
                (Parts (add_images imgs (if c \<noteq> [] then [TextPart c] else []))))"

fun build_loop :: "message list \<Rightarrow> formatted_message list \<Rightarrow> formatted_message list" where
  "build_loop [] formatted_messages = formatted_messages"
| "build_loop (msg # rest) formatted_messages =
     build_loop rest (formatted_messages @ [format_message msg])"

definition build_messages :: "message list \<Rightarrow> formatted_message list" where
  "build_messages messages = build_loop messages []"

text \<open>What the claims call the image list, the text and the role of a turn.\<close>

definition turn_images :: "message \<Rightarrow> image list" where
  "turn_images msg = (case images msg of Present (Some l) \<Rightarrow> l | _ \<Rightarrow> [])"

definition turn_text :: "message \<Rightarrow> string" where
  "turn_text msg = (case content msg of Present s \<Rightarrow> s | Absent \<Rightarrow> [])"

definition turn_role :: "message \<Rightarrow> string" where
  "turn_role msg = (case role msg of Present s \<Rightarrow> s | Absent \<Rightarrow> ''user'')"

definition has_data :: "image \<Rightarrow> bool" where
  \<comment> \<open>The attachment carries non-empty data.\<close>
  "has_data img = (case data_base64 img of Present (Some d) \<Rightarrow> d \<noteq> [] | _ \<Rightarrow> False)"

definition image_data :: "image \<Rightarrow> string" where
  "image_data img = (case data_base64 img of Present (Some d) \<Rightarrow> d | _ \<Rightarrow> [])"

definition image_mime :: "image \<Rightarrow> string" where
  \<comment> \<open>The mime type as written into the URL: the default for a missing key.\<close>
  "image_mime img =
     (case mime_type img of Absent \<Rightarrow> ''image/jpeg'' | Present v \<Rightarrow> str_of v)"

definition image_part :: "image \<Rightarrow> part" where
  "image_part img = ImageUrlPart (''data:'' @ image_mime img @ '';base64,'' @ image_data img)"

section \<open>Settings and backend call parameters\<close>

text \<open>
  Of the settings only the two default model names are read by the service functions.
  The backend call is \<open>client.chat.completions.create(**params)\<close>: \<open>params\<close> is a
  dictionary from parameter names to values. The values of the generation config are
  never inspected, so their type \<open>'v\<close> is left open.
\<close>

record settings =
  default_regular_model :: string
  default_vision_model :: string

datatype 'v param =
  PModel string | PMessages "formatted_message list" | PStream bool | PValue 'v

type_synonym 'v params = "string \<rightharpoonup> 'v param"

type_synonym 'v config = "string \<rightharpoonup> 'v"

definition cfg_of :: "'v config option \<Rightarrow> 'v config" where
  \<comment> \<open>\<open>cfg = config or {}\<close>\<close>
  "cfg_of config = (case config of None \<Rightarrow> Map.empty | Some c \<Rightarrow> c)"

definition set_if_present :: "'v config \<Rightarrow> string \<Rightarrow> string \<Rightarrow> 'v params \<Rightarrow> 'v params" where
  \<comment> \<open>\<open>if src in cfg: params[dst] = cfg[src]\<close>\<close>
  "set_if_present cfg src dst params =
     (case cfg src of None \<Rightarrow> params | Some v \<Rightarrow> params(dst \<mapsto> PValue v))"

definition respond_params ::
  "settings \<Rightarrow> message list \<Rightarrow> string option \<Rightarrow> 'v config option \<Rightarrow> 'v params" where
  \<comment> \<open>Lines 101 to 126 of \<open>respond\<close>: the parameters of the backend call.\<close>
  "respond_params st messages model_key config =
     (let model = or_else model_key (default_regular_model st);
          formatted_messages = build_messages messages;
          cfg = cfg_of config;
          params = [''model'' \<mapsto> PModel model, ''messages'' \<mapsto> PMessages formatted_messages];
          params = set_if_present cfg ''temperature'' ''temperature'' params;
          params = set_if_present cfg ''maxTokens'' ''max_tokens'' params;
          params = set_if_present cfg ''topP'' ''top_p'' params;
          params = set_if_present cfg ''presencePenalty'' ''presence_penalty'' params;
          params = set_if_present cfg ''frequencyPenalty'' ''frequency_penalty'' params
      in params)"

definition stream_params ::
  "settings \<Rightarrow> message list \<Rightarrow> string option \<Rightarrow> 'v config option \<Rightarrow> 'v params" where
  \<comment> \<open>Lines 151 to 175 of \<open>stream_respond\<close>.\<close>
  "stream_params st messages model_key config =
     (let model = or_else model_key (default_regular_model st);
          formatted_messages = build_messages messages;
          cfg = cfg_of config;
          params = [''model'' \<mapsto> PModel model, ''messages'' \<mapsto> PMessages formatted_messages,
                    ''stream'' \<mapsto> PStream True];
          params = set_if_present cfg ''temperature'' ''temperature'' params;
          params = set_if_present cfg ''maxTokens'' ''max_tokens'' params;
          params = set_if_present cfg ''topP'' ''top_p'' params;
          params = set_if_present cfg ''presencePenalty'' ''presence_penalty'' params;
          params = set_if_present cfg ''frequencyPenalty'' ''frequency_penalty'' params
      in params)"

definition renaming :: "(string \<times> string) list" where
  \<comment> \<open>The config fields and the backend parameter each one is sent as.\<close>
  "renaming =
     [(''temperature'', ''temperature''), (''maxTokens'', ''max_tokens''), (''topP'', ''top_p''),
      (''presencePenalty'', ''presence_penalty''), (''frequencyPenalty'', ''frequency_penalty'')]"

definition expected_keys :: "'v config \<Rightarrow> string set" where
  \<comment> \<open>The backend names of the fields present in a config.\<close>
  "expected_keys cfg = set (map snd (filter (\<lambda>(src, dst). cfg src \<noteq> None) renaming))"

definition fixed_keys :: "string set" where
  \<comment> \<open>The parameters of a call that do not come from the config.\<close>
  "fixed_keys = {''model'', ''messages'', ''stream''}"

definition generation_params :: "'v params \<Rightarrow> 'v params" where
  \<comment> \<open>The generation parameters of a call: all but the fixed ones.\<close>
  "generation_params params = (\<lambda>k. if k \<in> fixed_keys then None else params k)"

definition passes_verbatim :: "'v params \<Rightarrow> 'v config \<Rightarrow> bool" where
  \<comment> \<open>Each backend parameter holds the value of its config field, unchanged, if any.\<close>
  "passes_verbatim params cfg =
     (params ''temperature'' = map_option PValue (cfg ''temperature'')
      \<and> params ''max_tokens'' = map_option PValue (cfg ''maxTokens'')
      \<and> params ''top_p'' = map_option PValue (cfg ''topP'')
      \<and> params ''presence_penalty'' = map_option PValue (cfg ''presencePenalty'')
      \<and> params ''frequency_penalty'' = map_option PValue (cfg ''frequencyPenalty''))"

definition resolved_model :: "'v params \<Rightarrow> string option" where
  \<comment> \<open>The model name a backend call is made with.\<close>
  "resolved_model params = (case params ''model'' of Some (PModel m) \<Rightarrow> Some m | _ \<Rightarrow> None)"

section \<open>Non-streaming completion: \<open>respond\<close>\<close>

text \<open>
  The backend either raises or returns a response object, of which the service reads
  \<open>model\<close>, \<open>choices[0].message.content\<close>, \<open>choices[0].finish_reason\<close> and
  \<open>usage.completion_tokens\<close>. Reading \<open>choices[0]\<close> of an empty list raises.
  The backend call is an effect of \<open>respond\<close>: the model returns the parameters the
  backend was called with next to the result, so that a property of the call can be stated.
\<close>

datatype error = BackendError string | IndexError | ValidationError

record completion_choice =
  message_content :: "string option"
  choice_finish_reason :: "string option"

record usage =
  completion_tokens :: int

record response =
  response_model :: string
  response_choices :: "completion_choice list"
  response_usage :: "usage option"

record result =
  res_model :: string
  res_content :: "string option"
  res_stop_reason :: "string option"
  res_predicted_tokens :: "int option"

definition completion_result :: "response \<Rightarrow> error + result" where
  \<comment> \<open>The dictionary returned by \<open>respond\<close>, lines 136 to 141.\<close>
  "completion_result r =
     (case response_choices r of
        [] \<Rightarrow> Inl IndexError
      | c # _ \<Rightarrow>
          Inr \<lparr> res_model = response_model r,
                res_content = message_content c,
                res_stop_reason = choice_finish_reason c,
                res_predicted_tokens =
                  (case response_usage r of
                     None \<Rightarrow> None
                   | Some u \<Rightarrow> Some (completion_tokens u)) \<rparr>)"

definition respond ::
  "settings \<Rightarrow> ('v params \<Rightarrow> error + response) \<Rightarrow> message list \<Rightarrow> string option
   \<Rightarrow> 'v config option \<Rightarrow> 'v params \<times> (error + result)" where
  "respond st create messages model_key config =
     (let params = respond_params st messages model_key config
      in (params, case create params of
                    Inl e \<Rightarrow> Inl e
                  | Inr r \<Rightarrow> completion_result r))"

definition respond_regular ::
  "settings \<Rightarrow> ('v params \<Rightarrow> error + response) \<Rightarrow> message list \<Rightarrow> 'v config option
   \<Rightarrow> 'v params \<times> (error + result)" where
  "respond_regular st create messages config =
     (let model_key = default_regular_model st
      in respond st create messages (Some model_key) config)"

definition respond_vision ::
  "settings \<Rightarrow> ('v params \<Rightarrow> error + response) \<Rightarrow> message list \<Rightarrow> 'v config option
   \<Rightarrow> 'v params \<times> (error + result)" where
  "respond_vision st create messages config =
     (let model_key = default_vision_model st
      in respond st create messages (Some model_key) config)"

section \<open>Streaming completion: \<open>stream_respond\<close>\<close>

text \<open>
  A backend stream delivers a finite number of units and then ends, normally or with an
  error; opening the stream may itself raise. The generator \<open>stream_respond\<close> is the
  list of the events it yields together with the error that ended it, if any; as for
  \<open>respond\<close>, the parameters of the backend call come first.
\<close>

datatype delta = Delta (delta_content: "string option")

record stream_choice =
  choice_delta :: "delta option"
  finish_reason :: "string option"

record chunk =
  chunk_choices :: "stream_choice list"
  chunk_model :: "string option"

type_synonym stream = "chunk list \<times> error option"

datatype event = Fragment string | Done string "int option" "string option"

record loop_state =
  model_name :: "string option"
  total_tokens :: int
  last_finish :: "string option"

definition init_state :: loop_state where
  "init_state = \<lparr> model_name = None, total_tokens = 0, last_finish = None \<rparr>"

definition delta_text :: "stream_choice \<Rightarrow> string option" where
  \<comment> \<open>\<open>choice.delta and choice.delta.content\<close>, when it is true.\<close>
  "delta_text choice =
     (case choice_delta choice of
        None \<Rightarrow> None
      | Some d \<Rightarrow> if truthy (delta_content d) then delta_content d else None)"

fun consume :: "chunk list \<Rightarrow> loop_state \<Rightarrow> event list \<Rightarrow> loop_state \<times> event list" where
  \<comment> \<open>The loop \<open>async for chunk in stream\<close>; the events yielded so far are collected.\<close>
  "consume [] s out = (s, out)"
| "consume (ch # rest) s out =
     (case chunk_choices ch of
        [] \<Rightarrow> consume rest s out
      | choice # _ \<Rightarrow>
          (let s1 = (if model_name s = None \<and> truthy (chunk_model ch)
                     then s\<lparr>model_name := chunk_model ch\<rparr> else s);
               s2 = (case delta_text choice of
                       None \<Rightarrow> s1
                     | Some t \<Rightarrow> s1\<lparr>total_tokens := total_tokens s1 + 1\<rparr>);
               out2 = (case delta_text choice of
                         None \<Rightarrow> out
                       | Some t \<Rightarrow> out @ [Fragment t]);
               s3 = (if truthy (finish_reason choice)
                     then s2\<lparr>last_finish := finish_reason choice\<rparr> else s2)
           in consume rest s3 out2))"

definition done_event :: "string \<Rightarrow> loop_state \<Rightarrow> event" where
  \<comment> \<open>The final \<open>yield\<close>, lines 213 to 218.\<close>
  "done_event model s =
     Done (or_else (model_name s) model)
          (if total_tokens s > 0 then Some (total_tokens s) else None)
          (last_finish s)"

definition stream_respond ::
  "settings \<Rightarrow> ('v params \<Rightarrow> error + stream) \<Rightarrow> message list \<Rightarrow> string option
   \<Rightarrow> 'v config option \<Rightarrow> 'v params \<times> event list \<times> error option" where
  "stream_respond st create messages model_key config =
     (let model = or_else model_key (default_regular_model st);
          params = stream_params st messages model_key config
      in (params,
          case create params of
            Inl e \<Rightarrow> ([], Some e)
          | Inr (chunks, ending) \<Rightarrow>
              (case consume chunks init_state [] of
                 (s, out) \<Rightarrow>
                   (case ending of
                      Some e \<Rightarrow> (out, Some e)
                    | None \<Rightarrow> (out @ [done_event model s], None)))))"

definition stream_respond_regular ::
  "settings \<Rightarrow> ('v params \<Rightarrow> error + stream) \<Rightarrow> message list \<Rightarrow> 'v config option
   \<Rightarrow> 'v params \<times> event list \<times> error option" where
  "stream_respond_regular st create messages config =
     (let model_key = default_regular_model st
      in stream_respond st create messages (Some model_key) config)"

definition stream_respond_vision ::
  "settings \<Rightarrow> ('v params \<Rightarrow> error + stream) \<Rightarrow> message list \<Rightarrow> 'v config option
   \<Rightarrow> 'v params \<times> event list \<times> error option" where
  "stream_respond_vision st create messages config =
     (let model_key = default_vision_model st
      in stream_respond st create messages (Some model_key) config)"

definition events :: "'v params \<times> event list \<times> error option \<Rightarrow> event list" where
  \<comment> \<open>The events a run of the generator yields.\<close>
  "events run = fst (snd run)"

definition raised :: "'v params \<times> event list \<times> error option \<Rightarrow> error option" where
  \<comment> \<open>The error that ends a run of the generator, if any.\<close>
  "raised run = snd (snd run)"

definition always :: "'b \<Rightarrow> 'a \<Rightarrow> 'b" where
  \<comment> \<open>A backend that answers every call alike.\<close>
  "always r params = r"

text \<open>What a unit of the stream delivers, as the loop reads it.\<close>

definition unit_text :: "chunk \<Rightarrow> string option" where
  \<comment> \<open>The non-empty text of the first choice.\<close>
  "unit_text ch = (case chunk_choices ch of [] \<Rightarrow> None | c # _ \<Rightarrow> delta_text c)"

definition unit_model :: "chunk \<Rightarrow> string option" where
  \<comment> \<open>The non-empty model name of a unit that has a choice.\<close>
  "unit_model ch =
     (if chunk_choices ch \<noteq> [] \<and> truthy (chunk_model ch) then chunk_model ch else None)"

definition unit_finish :: "chunk \<Rightarrow> string option" where
  \<comment> \<open>The non-empty finish reason of the first choice.\<close>
  "unit_finish ch =
     (case chunk_choices ch of
        [] \<Rightarrow> None
      | c # _ \<Rightarrow> if truthy (finish_reason c) then finish_reason c else None)"

definition first_of :: "'a list \<Rightarrow> 'a option" where
  "first_of xs = (case xs of [] \<Rightarrow> None | x # _ \<Rightarrow> Some x)"

definition last_of :: "'a list \<Rightarrow> 'a option" where
  "last_of xs = first_of (rev xs)"

definition reported_model :: "chunk \<Rightarrow> string option" where
  \<comment> \<open>The model name a unit reports, whether or not the unit has a choice.\<close>
  "reported_model ch = (if truthy (chunk_model ch) then chunk_model ch else None)"

fun is_done :: "event \<Rightarrow> bool" where
  "is_done (Done m p r) = True"
| "is_done (Fragment t) = False"

fun is_fragment :: "event \<Rightarrow> bool" where
  "is_fragment (Fragment t) = True"
| "is_fragment (Done m p r) = False"

section \<open>The endpoint \<open>POST /chat\<close>\<close>

text \<open>
  The request is validated before the handler runs, so the handler sees typed objects.
  \<open>model_dump\<close> turns them into the dictionaries of the service; for the config,
  \<open>exclude_none=True\<close> leaves out the fields that are \<open>None\<close>.
  The handler ends in one of three ways: it returns the response body, it raises
  \<open>HTTPException\<close> with a status code (the detail text is built from the error caught),
  or an error leaves it uncaught.
\<close>

record ChatImage =
  img_data_base64 :: string
  img_mime_type :: "string option"

record ChatMessage =
  msg_role :: string
  msg_content :: string
  msg_images :: "ChatImage list"

record 'v ChatConfig =
  temperature :: "'v option"
  maxTokens :: "'v option"
  topP :: "'v option"
  presencePenalty :: "'v option"
  frequencyPenalty :: "'v option"

record 'v ChatRequest =
  req_model_key :: "string option"
  req_messages :: "ChatMessage list"
  req_config :: "'v ChatConfig option"

record ChatResponse =
  resp_model :: string
  resp_content :: string
  resp_stop_reason :: "string option"
  resp_predicted_tokens :: "int option"

datatype outcome = Returned ChatResponse | HTTPException nat error | Uncaught error

definition dump_image :: "ChatImage \<Rightarrow> image" where
  "dump_image i =
     \<lparr> data_base64 = Present (Some (img_data_base64 i)), mime_type = Present (img_mime_type i) \<rparr>"

definition dump_message :: "ChatMessage \<Rightarrow> message" where
  "dump_message m =
     \<lparr> role = Present (msg_role m), content = Present (msg_content m),
       images = Present (Some (map dump_image (msg_images m))) \<rparr>"

definition dump_config :: "'v ChatConfig \<Rightarrow> 'v config" where
  \<comment> \<open>\<open>model_dump(exclude_none=True)\<close>\<close>
  "dump_config c =
     (\<lambda>k. if k = ''temperature'' then temperature c
          else if k = ''maxTokens'' then maxTokens c
          else if k = ''topP'' then topP c
          else if k = ''presencePenalty'' then presencePenalty c
          else if k = ''frequencyPenalty'' then frequencyPenalty c
          else None)"

definition new_ChatResponse :: "result \<Rightarrow> error + ChatResponse" where
  \<comment> \<open>\<open>ChatResponse(**data)\<close>: the field \<open>content\<close> is declared \<open>str\<close> and refuses \<open>None\<close>.\<close>
  "new_ChatResponse data =
     (case res_content data of
        None \<Rightarrow> Inl ValidationError
      | Some c \<Rightarrow>
          Inr \<lparr> resp_model = res_model data, resp_content = c,
                resp_stop_reason = res_stop_reason data,
                resp_predicted_tokens = res_predicted_tokens data \<rparr>)"

definition chat_try ::
  "settings \<Rightarrow> ('v params \<Rightarrow> error + response) \<Rightarrow> 'v ChatRequest \<Rightarrow> error + result" where
  \<comment> \<open>The body of the \<open>try\<close> block, lines 20 to 27.\<close>
  "chat_try st create req =
     (let messages = map dump_message (req_messages req);
          config = (case req_config req of None \<Rightarrow> None | Some c \<Rightarrow> Some (dump_config c))
      in snd (respond st create messages (req_model_key req) config))"

definition chat ::
  "settings \<Rightarrow> ('v params \<Rightarrow> error + response) \<Rightarrow> 'v ChatRequest \<Rightarrow> outcome" where
  "chat st create req =
     (case chat_try st create req of
        Inl e \<Rightarrow> HTTPException 503 e
      | Inr data \<Rightarrow>
          (case new_ChatResponse data of
             Inl e \<Rightarrow> Uncaught e
           | Inr r \<Rightarrow> Returned r))"

text \<open>
  The handlers of \<open>POST /chat/regular\<close> and \<open>POST /chat/vision\<close> have the same shape;
  their requests carry no model key.
\<close>

record 'v RegularChatRequest =
  reg_messages :: "ChatMessage list"
  reg_config :: "'v ChatConfig option"

record 'v VisionChatRequest =
  vis_messages :: "ChatMessage list"
  vis_config :: "'v ChatConfig option"

definition chat_regular ::
  "settings \<Rightarrow> ('v params \<Rightarrow> error + response) \<Rightarrow> 'v RegularChatRequest \<Rightarrow> outcome" where
  "chat_regular st create req =
     (case (let messages = map dump_message (reg_messages req);
                config = (case reg_config req of None \<Rightarrow> None | Some c \<Rightarrow> Some (dump_config c))
            in snd (respond_regular st create messages config)) of
        Inl e \<Rightarrow> HTTPException 503 e
      | Inr data \<Rightarrow>
          (case new_ChatResponse data of
             Inl e \<Rightarrow> Uncaught e
           | Inr r \<Rightarrow> Returned r))"

definition chat_vision ::
  "settings \<Rightarrow> ('v params \<Rightarrow> error + response) \<Rightarrow> 'v VisionChatRequest \<Rightarrow> outcome" where
  "chat_vision st create req =
     (case (let messages = map dump_message (vis_messages req);
                config = (case vis_config req of None \<Rightarrow> None | Some c \<Rightarrow> Some (dump_config c))
            in snd (respond_vision st create messages config)) of
        Inl e \<Rightarrow> HTTPException 503 e
      | Inr data \<Rightarrow>
          (case new_ChatResponse data of
             Inl e \<Rightarrow> Uncaught e
           | Inr r \<Rightarrow> Returned r))"

definition as_regular :: "'v ChatRequest \<Rightarrow> 'v RegularChatRequest" where
  \<comment> \<open>A request body read as \<open>RegularChatRequest\<close>: the class declares no \<open>model_key\<close>
      field, so a key the client sends is not kept.\<close>
  "as_regular body = \<lparr> reg_messages = req_messages body, reg_config = req_config body \<rparr>"

definition as_vision :: "'v ChatRequest \<Rightarrow> 'v VisionChatRequest" where
  \<comment> \<open>A request body read as \<open>VisionChatRequest\<close>, which declares no \<open>model_key\<close> field.\<close>
  "as_vision body = \<lparr> vis_messages = req_messages body, vis_config = req_config body \<rparr>"

definition chat_params :: "settings \<Rightarrow> 'v ChatRequest \<Rightarrow> 'v params" where
  \<comment> \<open>The parameters of the backend call the handler makes through \<open>respond\<close>.\<close>
  "chat_params st req =
     respond_params st (map dump_message (req_messages req)) (req_model_key req)
       (case req_config req of None \<Rightarrow> None | Some c \<Rightarrow> Some (dump_config c))"

definition chat_raised ::
  "settings \<Rightarrow> ('v params \<Rightarrow> error + response) \<Rightarrow> 'v ChatRequest \<Rightarrow> error option" where
  \<comment> \<open>The error raised while the handler runs, inside the \<open>try\<close> block or after it, if any.\<close>
  "chat_raised st create req =
     (case chat_try st create req of
        Inl e \<Rightarrow> Some e
      | Inr data \<Rightarrow> (case new_ChatResponse data of Inl e \<Rightarrow> Some e | Inr r \<Rightarrow> None))"

section \<open>Example inputs\<close>

definition text_chunk :: "string \<Rightarrow> string \<Rightarrow> chunk" where
  \<comment> \<open>A unit of the model \<open>m\<close> whose only choice carries the text \<open>t\<close>.\<close>
  "text_chunk m t =
     \<lparr> chunk_choices = [\<lparr> choice_delta = Some (Delta (Some t)), finish_reason = None \<rparr>],
       chunk_model = Some m \<rparr>"

definition finish_chunk :: "string \<Rightarrow> string \<Rightarrow> chunk" where
  \<comment> \<open>A unit of the model \<open>m\<close> whose only choice carries the finish reason \<open>r\<close>.\<close>
  "finish_chunk m r =
     \<lparr> chunk_choices = [\<lparr> choice_delta = Some (Delta None), finish_reason = Some r \<rparr>],
       chunk_model = Some m \<rparr>"

definition bare_chunk :: "string \<Rightarrow> chunk" where
  \<comment> \<open>A unit of the model \<open>m\<close> with no choice.\<close>
  "bare_chunk m = \<lparr> chunk_choices = [], chunk_model = Some m \<rparr>"

definition echo_response :: "string \<Rightarrow> string \<Rightarrow> response" where
  \<comment> \<open>A response of the model \<open>m\<close> with one choice, the text \<open>t\<close>, and one completion token.\<close>
  "echo_response m t =
     \<lparr> response_model = m,
       response_choices = [\<lparr> message_content = Some t, choice_finish_reason = Some ''stop'' \<rparr>],
       response_usage = Some \<lparr> completion_tokens = 1 \<rparr> \<rparr>"

definition settings_m1 :: settings where
  "settings_m1 = \<lparr> default_regular_model = ''m1'', default_vision_model = ''v1'' \<rparr>"

section \<open>Properties of \<open>build_messages\<close>\<close>

lemma build_loop_map: "build_loop msgs acc = acc @ map format_message msgs"
  by (induction msgs arbitrary: acc) simp_all

lemma add_images_filter:
  "add_images imgs acc = acc @ map image_part (filter has_data imgs)"
proof (induction imgs arbitrary: acc)
  case Nil
  show ?case by simp
next
  case (Cons img rest)
  show ?case
  proof (cases "has_data img")
    case True
    then obtain d where d: "data_base64 img = Present (Some d)" "d \<noteq> []"
      by (auto simp: has_data_def split: entry.splits option.splits)
    then have "data_url (dict_get (mime_type img) (Some ''image/jpeg'')) (Some d)
               = ''data:'' @ image_mime img @ '';base64,'' @ image_data img"
      by (simp add: data_url_def image_mime_def image_data_def dict_get_def str_of_def
               split: entry.splits)
    with d True Cons show ?thesis
      by (simp add: dict_get_def truthy_def image_part_def)
  next
    case False
    then have "\<not> truthy (dict_get (data_base64 img) None)"
      by (auto simp: has_data_def truthy_def dict_get_def split: entry.splits option.splits)
    with False Cons show ?thesis by simp
  qed
qed

lemma format_message_role: "formatted_role (format_message msg) = turn_role msg"
  by (simp add: format_message_def turn_role_def dict_get_def Let_def split: entry.splits)

text \<open>
  Claim C4. For every input list of chat turns, \<open>build_messages\<close> returns exactly one
  normalised message per turn, in the order of the input: it is the list of the
  per-turn results. The function has no failing branch: every key is read with a
  default, so a missing mime type, missing data or an unknown role still gives a
  message, and the role of each output message is the role of its turn, whatever it is.
\<close>

theorem build_messages_one_per_turn:
  "length (build_messages msgs) = length msgs
   \<and> build_messages msgs = map format_message msgs
   \<and> map formatted_role (build_messages msgs) = map turn_role msgs"
  by (simp add: build_messages_def build_loop_map format_message_role)

text \<open>
  Claim C5. A turn with an empty image list gives the plain-text form, role and content
  string. A turn with images gives the multi-part form: the text part first exactly when
  the text is non-empty, then one image part for each attachment with non-empty data, in
  attachment order, each the URL \<^verbatim>\<open>data:<mimeType>;base64,<data>\<close> with
  \<open>image/jpeg\<close> for a missing mime type; an attachment with empty data gives no part.
\<close>

theorem format_message_forms:
  "format_message msg =
     (if turn_images msg = [] then Formatted (turn_role msg) (Text (turn_text msg))
      else Formatted (turn_role msg)
             (Parts ((if turn_text msg \<noteq> [] then [TextPart (turn_text msg)] else [])
                     @ map image_part (filter has_data (turn_images msg)))))"
  by (simp add: format_message_def add_images_filter turn_images_def turn_text_def
        turn_role_def dict_get_def Let_def split: entry.splits option.splits)

section \<open>Properties of \<open>stream_respond\<close>\<close>

lemma last_of_Cons: "last_of (x # xs) = (case last_of xs of None \<Rightarrow> Some x | Some y \<Rightarrow> Some y)"
  by (cases "rev xs") (simp_all add: last_of_def first_of_def)

lemma consume_out:
  "snd (consume chunks s out) = out @ map Fragment (List.map_filter unit_text chunks)"
proof (induction chunks arbitrary: s out)
  case Nil
  show ?case by simp
next
  case (Cons ch rest)
  have ut: "unit_text ch = (case chunk_choices ch of [] \<Rightarrow> None | c # _ \<Rightarrow> delta_text c)"
    by (simp add: unit_text_def)
  show ?case
    by (cases "chunk_choices ch")
       (simp_all add: Cons ut Let_def split: option.splits)
qed

lemma consume_tokens:
  "total_tokens (fst (consume chunks s out)) =
     total_tokens s + int (length (List.map_filter unit_text chunks))"
proof (induction chunks arbitrary: s out)
  case Nil
  show ?case by simp
next
  case (Cons ch rest)
  have ut: "unit_text ch = (case chunk_choices ch of [] \<Rightarrow> None | c # _ \<Rightarrow> delta_text c)"
    by (simp add: unit_text_def)
  show ?case
    by (cases "chunk_choices ch")
       (simp_all add: Cons ut Let_def split: option.splits)
qed

lemma consume_model:
  "model_name (fst (consume chunks s out)) =
     (case model_name s of
        None \<Rightarrow> first_of (List.map_filter unit_model chunks)
      | Some m \<Rightarrow> Some m)"
proof (induction chunks arbitrary: s out)
  case Nil
  show ?case by (simp add: first_of_def split: option.splits)
next
  case (Cons ch rest)
  have um: "unit_model ch =
      (if chunk_choices ch \<noteq> [] \<and> truthy (chunk_model ch) then chunk_model ch else None)"
    by (simp add: unit_model_def)
  show ?case
    by (cases "chunk_choices ch")
       (auto simp add: Cons um Let_def first_of_def truthy_def
             split: option.splits)
qed

lemma consume_finish:
  "last_finish (fst (consume chunks s out)) =
     (case last_of (List.map_filter unit_finish chunks) of
        None \<Rightarrow> last_finish s
      | Some r \<Rightarrow> Some r)"
proof (induction chunks arbitrary: s out)
  case Nil
  show ?case by (simp add: last_of_def first_of_def)
next
  case (Cons ch rest)
  have uf: "unit_finish ch =
      (case chunk_choices ch of [] \<Rightarrow> None
       | c # _ \<Rightarrow> if truthy (finish_reason c) then finish_reason c else None)"
    by (simp add: unit_finish_def)
  show ?case
    by (cases "chunk_choices ch")
       (auto simp add: Cons last_of_Cons uf Let_def truthy_def
             split: option.splits)
qed

lemma unit_model_nonempty:
  "first_of (List.map_filter unit_model chunks) = Some m \<Longrightarrow> m \<noteq> []"
proof (induction chunks)
  case Nil
  then show ?case by (simp add: first_of_def)
next
  case (Cons ch rest)
  have um: "unit_model ch =
      (if chunk_choices ch \<noteq> [] \<and> truthy (chunk_model ch) then chunk_model ch else None)"
    by (simp add: unit_model_def)
  from Cons show ?case
    by (auto simp: um first_of_def truthy_def split: option.splits if_splits)
qed

lemma consume_pair:
  "consume chunks s out =
     (fst (consume chunks s out), out @ map Fragment (List.map_filter unit_text chunks))"
  using consume_out [of chunks s out] by (cases "consume chunks s out") simp

lemma stream_respond_normal:
  assumes "create (stream_params st msgs key cfg) = Inr (chunks, None)"
  shows "events (stream_respond st create msgs key cfg) =
           map Fragment (List.map_filter unit_text chunks)
           @ [done_event (or_else key (default_regular_model st))
                (fst (consume chunks init_state []))]" (is ?ev)
    and "raised (stream_respond st create msgs key cfg) = None" (is ?er)
proof -
  obtain s where c: "consume chunks init_state [] =
      (s, map Fragment (List.map_filter unit_text chunks))"
    using consume_pair [of chunks init_state "[]"] by simp
  show ?ev ?er
    using assms c by (simp_all add: stream_respond_def events_def raised_def Let_def)
qed

lemma stream_respond_failed:
  assumes "create (stream_params st msgs key cfg) = Inr (chunks, Some e)"
  shows "events (stream_respond st create msgs key cfg) =
           map Fragment (List.map_filter unit_text chunks)" (is ?ev)
    and "raised (stream_respond st create msgs key cfg) = Some e" (is ?er)
proof -
  obtain s where c: "consume chunks init_state [] =
      (s, map Fragment (List.map_filter unit_text chunks))"
    using consume_pair [of chunks init_state "[]"] by simp
  show ?ev ?er
    using assms c by (simp_all add: stream_respond_def events_def raised_def Let_def)
qed

lemma stream_respond_not_opened:
  assumes "create (stream_params st msgs key cfg) = Inl e"
  shows "events (stream_respond st create msgs key cfg) = []"
    and "raised (stream_respond st create msgs key cfg) = Some e"
  using assms by (simp_all add: stream_respond_def events_def raised_def Let_def)

lemma fragments_only:
  "filter is_done (map Fragment ts) = []" "filter is_fragment (map Fragment ts) = map Fragment ts"
  "list_all is_fragment (map Fragment ts)"
  by (induction ts) simp_all

lemma is_done_done_event: "is_done (done_event m s)" "\<not> is_fragment (done_event m s)"
  by (simp_all add: done_event_def)

text \<open>
  Claim C1. For every backend stream that ends normally, the events of
  \<open>stream_respond\<close> are zero or more \<open>Fragment\<close> events followed by exactly one
  \<open>Done\<close> event: the sequence is not empty, its last element is a \<open>Done\<close>, all the
  elements before it are fragments, it holds one \<open>Done\<close> in all, and the run ends
  without an error. Nothing follows the \<open>Done\<close>, which is the last element.
\<close>

theorem stream_ends_with_one_done:
  assumes "create (stream_params st msgs key cfg) = Inr (chunks, None)"
  shows "events (stream_respond st create msgs key cfg) \<noteq> []
       \<and> is_done (last (events (stream_respond st create msgs key cfg)))
       \<and> list_all is_fragment (butlast (events (stream_respond st create msgs key cfg)))
       \<and> length (filter is_done (events (stream_respond st create msgs key cfg))) = 1
       \<and> raised (stream_respond st create msgs key cfg) = None"
  by (simp add: stream_respond_normal [of create st msgs key cfg chunks, OF assms] fragments_only is_done_done_event)

text \<open>
  Claim C2. For every \<open>N\<close>, if the backend stream raises after delivering units that
  gave \<open>N\<close> fragments (or the call that opens the stream raises, before any unit), the
  events of \<open>stream_respond\<close> are exactly those \<open>N\<close> \<open>Fragment\<close> events, there is no
  \<open>Done\<close> event, and the run ends with the backend's error.
\<close>

theorem stream_error_no_done:
  assumes "create (stream_params st msgs key cfg) = Inr (chunks, Some e)
           \<or> (create (stream_params st msgs key cfg) = Inl e \<and> chunks = [])"
    and "length (List.map_filter unit_text chunks) = N"
  shows "events (stream_respond st create msgs key cfg) =
           map Fragment (List.map_filter unit_text chunks)
       \<and> list_all is_fragment (events (stream_respond st create msgs key cfg))
       \<and> length (events (stream_respond st create msgs key cfg)) = N
       \<and> filter is_done (events (stream_respond st create msgs key cfg)) = []
       \<and> raised (stream_respond st create msgs key cfg) = Some e"
proof -
  have ev: "events (stream_respond st create msgs key cfg) =
              map Fragment (List.map_filter unit_text chunks)"
    and r: "raised (stream_respond st create msgs key cfg) = Some e"
    using assms(1) stream_respond_failed [of create st msgs key cfg chunks e]
      stream_respond_not_opened [of create st msgs key cfg e]
    by auto
  show ?thesis using assms(2) by (simp add: ev r fragments_only)
qed

text \<open>
  Claim C3, as amended. For every backend stream that ends normally, the final \<open>Done\<close>
  event carries: the model name of the first unit that has at least one choice and
  reports a non-empty model name, or the requested model when there is no such unit; the
  number of \<open>Fragment\<close> events emitted, or nothing when that number is zero; and the
  finish reason most recently reported by the first choice of a unit, or nothing when
  none was reported.
\<close>

theorem done_event_contents:
  assumes "create (stream_params st msgs key cfg) = Inr (chunks, None)"
  shows "last (events (stream_respond st create msgs key cfg)) =
           Done (case first_of (List.map_filter unit_model chunks) of
                   Some m \<Rightarrow> m
                 | None \<Rightarrow> or_else key (default_regular_model st))
                (if length (filter is_fragment (events (stream_respond st create msgs key cfg))) = 0
                 then None
                 else Some (int (length (filter is_fragment
                                   (events (stream_respond st create msgs key cfg))))))
                (last_of (List.map_filter unit_finish chunks))"
proof -
  let ?s = "fst (consume chunks init_state [])"
  let ?ts = "List.map_filter unit_text chunks"
  have m: "model_name ?s = first_of (List.map_filter unit_model chunks)"
    by (simp add: consume_model init_state_def)
  have t: "total_tokens ?s = int (length ?ts)"
    by (simp add: consume_tokens init_state_def)
  have f: "last_finish ?s = last_of (List.map_filter unit_finish chunks)"
    by (simp add: consume_finish init_state_def split: option.splits)
  have mm: "or_else (model_name ?s) (or_else key (default_regular_model st)) =
      (case first_of (List.map_filter unit_model chunks) of
         Some m \<Rightarrow> m | None \<Rightarrow> or_else key (default_regular_model st))"
    using unit_model_nonempty [of chunks]
    by (cases "first_of (List.map_filter unit_model chunks)") (simp_all add: m or_else_def)
  have n: "length (filter is_fragment (events (stream_respond st create msgs key cfg))) = length ?ts"
    by (simp add: stream_respond_normal [of create st msgs key cfg chunks, OF assms] fragments_only is_done_done_event)
  show ?thesis
    by (simp add: n stream_respond_normal [of create st msgs key cfg chunks, OF assms] done_event_def mm t f)
qed

section \<open>Properties of the backend call parameters\<close>

lemma set_if_present_apply:
  "set_if_present cfg src dst p k =
     (if k = dst then (case cfg src of None \<Rightarrow> p k | Some v \<Rightarrow> Some (PValue v)) else p k)"
  by (simp add: set_if_present_def split: option.splits)

lemma respond_params_apply:
  "respond_params st msgs key config k =
     (if k = ''frequency_penalty'' then map_option PValue (cfg_of config ''frequencyPenalty'')
      else if k = ''presence_penalty'' then map_option PValue (cfg_of config ''presencePenalty'')
      else if k = ''top_p'' then map_option PValue (cfg_of config ''topP'')
      else if k = ''max_tokens'' then map_option PValue (cfg_of config ''maxTokens'')
      else if k = ''temperature'' then map_option PValue (cfg_of config ''temperature'')
      else if k = ''messages'' then Some (PMessages (build_messages msgs))
      else if k = ''model'' then Some (PModel (or_else key (default_regular_model st)))
      else None)"
proof -
  consider (fp) "k = ''frequency_penalty''" | (pp) "k = ''presence_penalty''"
    | (tp) "k = ''top_p''" | (mt) "k = ''max_tokens''" | (te) "k = ''temperature''"
    | (other) "k \<noteq> ''frequency_penalty''" "k \<noteq> ''presence_penalty''" "k \<noteq> ''top_p''"
        "k \<noteq> ''max_tokens''" "k \<noteq> ''temperature''"
    by blast
  then show ?thesis
  proof cases
    case fp
    then show ?thesis
      by (simp add: respond_params_def Let_def set_if_present_apply split: option.splits)
  next
    case pp
    then show ?thesis
      by (simp add: respond_params_def Let_def set_if_present_apply split: option.splits)
  next
    case tp
    then show ?thesis
      by (simp add: respond_params_def Let_def set_if_present_apply split: option.splits)
  next
    case mt
    then show ?thesis
      by (simp add: respond_params_def Let_def set_if_present_apply split: option.splits)
  next
    case te
    then show ?thesis
      by (simp add: respond_params_def Let_def set_if_present_apply split: option.splits)
  next
    case other
    then show ?thesis
      by (simp add: respond_params_def Let_def set_if_present_apply)
  qed
qed

lemma stream_params_apply:
  "stream_params st msgs key config k =
     (if k = ''frequency_penalty'' then map_option PValue (cfg_of config ''frequencyPenalty'')
      else if k = ''presence_penalty'' then map_option PValue (cfg_of config ''presencePenalty'')
      else if k = ''top_p'' then map_option PValue (cfg_of config ''topP'')
      else if k = ''max_tokens'' then map_option PValue (cfg_of config ''maxTokens'')
      else if k = ''temperature'' then map_option PValue (cfg_of config ''temperature'')
      else if k = ''stream'' then Some (PStream True)
      else if k = ''messages'' then Some (PMessages (build_messages msgs))
      else if k = ''model'' then Some (PModel (or_else key (default_regular_model st)))
      else None)"
proof -
  consider (fp) "k = ''frequency_penalty''" | (pp) "k = ''presence_penalty''"
    | (tp) "k = ''top_p''" | (mt) "k = ''max_tokens''" | (te) "k = ''temperature''"
    | (other) "k \<noteq> ''frequency_penalty''" "k \<noteq> ''presence_penalty''" "k \<noteq> ''top_p''"
        "k \<noteq> ''max_tokens''" "k \<noteq> ''temperature''"
    by blast
  then show ?thesis
  proof cases
    case fp
    then show ?thesis
      by (simp add: stream_params_def Let_def set_if_present_apply split: option.splits)
  next
    case pp
    then show ?thesis
      by (simp add: stream_params_def Let_def set_if_present_apply split: option.splits)
  next
    case tp
    then show ?thesis
      by (simp add: stream_params_def Let_def set_if_present_apply split: option.splits)
  next
    case mt
    then show ?thesis
      by (simp add: stream_params_def Let_def set_if_present_apply split: option.splits)
  next
    case te
    then show ?thesis
      by (simp add: stream_params_def Let_def set_if_present_apply split: option.splits)
  next
    case other
    then show ?thesis
      by (simp add: stream_params_def Let_def set_if_present_apply)
  qed
qed


lemma fst_respond: "fst (respond st create msgs key config) = respond_params st msgs key config"
  by (simp add: respond_def Let_def)

lemma fst_stream_respond:
  "fst (stream_respond st create msgs key config) = stream_params st msgs key config"
  by (simp add: stream_respond_def Let_def)

lemma present_keys_iff:
  "k \<in> set (map snd (filter (\<lambda>(src, dst). cfg src \<noteq> None)
                   [(a1, b1), (a2, b2), (a3, b3), (a4, b4), (a5, b5)])) \<longleftrightarrow>
     (k = b1 \<and> cfg a1 \<noteq> None) \<or> (k = b2 \<and> cfg a2 \<noteq> None) \<or> (k = b3 \<and> cfg a3 \<noteq> None)
   \<or> (k = b4 \<and> cfg a4 \<noteq> None) \<or> (k = b5 \<and> cfg a5 \<noteq> None)"
  by auto

lemma expected_keys_iff:
  "k \<in> expected_keys cfg \<longleftrightarrow>
     (k = ''temperature'' \<and> cfg ''temperature'' \<noteq> None)
   \<or> (k = ''max_tokens'' \<and> cfg ''maxTokens'' \<noteq> None)
   \<or> (k = ''top_p'' \<and> cfg ''topP'' \<noteq> None)
   \<or> (k = ''presence_penalty'' \<and> cfg ''presencePenalty'' \<noteq> None)
   \<or> (k = ''frequency_penalty'' \<and> cfg ''frequencyPenalty'' \<noteq> None)"
  unfolding expected_keys_def renaming_def by (rule present_keys_iff)

lemma generation_params_apply:
  "generation_params p k = (if k \<in> fixed_keys then None else p k)"
  by (simp add: generation_params_def)

lemma key_cases:
  obtains (fp) "k = ''frequency_penalty''" | (pp) "k = ''presence_penalty''"
    | (tp) "k = ''top_p''" | (mt) "k = ''max_tokens''" | (te) "k = ''temperature''"
    | (other) "k \<noteq> ''frequency_penalty''" "k \<noteq> ''presence_penalty''" "k \<noteq> ''top_p''"
        "k \<noteq> ''max_tokens''" "k \<noteq> ''temperature''"
  by blast

lemma generation_params_respond:
  "generation_params (respond_params st msgs key config) k =
     (if k = ''frequency_penalty'' then map_option PValue (cfg_of config ''frequencyPenalty'')
      else if k = ''presence_penalty'' then map_option PValue (cfg_of config ''presencePenalty'')
      else if k = ''top_p'' then map_option PValue (cfg_of config ''topP'')
      else if k = ''max_tokens'' then map_option PValue (cfg_of config ''maxTokens'')
      else if k = ''temperature'' then map_option PValue (cfg_of config ''temperature'')
      else None)"
proof (cases k rule: key_cases)
  case other
  then show ?thesis
    by (simp add: generation_params_apply respond_params_apply fixed_keys_def)
qed (simp_all add: generation_params_apply respond_params_apply fixed_keys_def)

lemma generation_params_stream:
  "generation_params (stream_params st msgs key config) k =
     (if k = ''frequency_penalty'' then map_option PValue (cfg_of config ''frequencyPenalty'')
      else if k = ''presence_penalty'' then map_option PValue (cfg_of config ''presencePenalty'')
      else if k = ''top_p'' then map_option PValue (cfg_of config ''topP'')
      else if k = ''max_tokens'' then map_option PValue (cfg_of config ''maxTokens'')
      else if k = ''temperature'' then map_option PValue (cfg_of config ''temperature'')
      else None)"
proof (cases k rule: key_cases)
  case other
  then show ?thesis
    by (simp add: generation_params_apply stream_params_apply fixed_keys_def)
qed (simp_all add: generation_params_apply stream_params_apply fixed_keys_def)

lemma dom_generation_respond:
  "dom (generation_params (respond_params st msgs key config)) = expected_keys (cfg_of config)"
proof (rule set_eqI)
  fix k
  show "k \<in> dom (generation_params (respond_params st msgs key config))
        \<longleftrightarrow> k \<in> expected_keys (cfg_of config)"
    by (cases k rule: key_cases)
       (simp_all add: domIff generation_params_respond expected_keys_iff)
qed

lemma dom_generation_stream:
  "dom (generation_params (stream_params st msgs key config)) = expected_keys (cfg_of config)"
proof (rule set_eqI)
  fix k
  show "k \<in> dom (generation_params (stream_params st msgs key config))
        \<longleftrightarrow> k \<in> expected_keys (cfg_of config)"
    by (cases k rule: key_cases)
       (simp_all add: domIff generation_params_stream expected_keys_iff)
qed

lemma passes_verbatim_respond:
  "passes_verbatim (respond_params st msgs key config) (cfg_of config)"
  by (simp add: passes_verbatim_def respond_params_apply)

lemma passes_verbatim_stream:
  "passes_verbatim (stream_params st msgs key config) (cfg_of config)"
  by (simp add: passes_verbatim_def stream_params_apply)

lemma no_config_no_params:
  "generation_params (respond_params st msgs key None) = Map.empty"
  "generation_params (stream_params st msgs key None) = Map.empty"
  by (rule ext, simp add: generation_params_respond cfg_of_def,
      rule ext, simp add: generation_params_stream cfg_of_def)

text \<open>
  Claim C6. For every generation config, the absent one included, the generation
  parameters of the backend call (of \<open>respond\<close> and of \<open>stream_respond\<close>) have exactly
  the keys of the fields present in the config, under the fixed renaming
  temperature to temperature, maxTokens to max_tokens, topP to top_p, presencePenalty to
  presence_penalty, frequencyPenalty to frequency_penalty; each holds the value of its
  field unchanged, whatever the type of the values; an absent config gives no
  generation parameter.
\<close>

theorem generation_params_exact:
  "dom (generation_params (fst (respond st create msgs key config))) = expected_keys (cfg_of config)
   \<and> passes_verbatim (fst (respond st create msgs key config)) (cfg_of config)
   \<and> dom (generation_params (fst (stream_respond st screate msgs key config)))
       = expected_keys (cfg_of config)
   \<and> passes_verbatim (fst (stream_respond st screate msgs key config)) (cfg_of config)
   \<and> generation_params (fst (respond st create msgs key None)) = Map.empty
   \<and> generation_params (fst (stream_respond st screate msgs key None)) = Map.empty"
  by (simp only: fst_respond fst_stream_respond dom_generation_respond dom_generation_stream
        passes_verbatim_respond passes_verbatim_stream no_config_no_params simp_thms)

lemma resolved_respond_params:
  "resolved_model (respond_params st msgs key config) = Some (or_else key (default_regular_model st))"
  by (simp add: resolved_model_def respond_params_apply)

lemma resolved_stream_params:
  "resolved_model (stream_params st msgs key config) = Some (or_else key (default_regular_model st))"
  by (simp add: resolved_model_def stream_params_apply)

text \<open>
  Claim C7, as amended. On the explicit path (\<open>respond\<close>, \<open>stream_respond\<close>) the
  backend is called with the client's model key if it is present and not the empty
  string, else with the configured regular default. On the regular path it is always
  called with the configured regular default, whatever key the client supplies: the
  regular functions take no key, and a key in the request body does not reach the
  handler. On the vision path, when the configured vision default is not the empty
  string, the backend is called with the configured vision default, again whatever key
  the client supplies.
\<close>

theorem model_resolution:
  "resolved_model (fst (respond st create msgs key config)) =
     Some (case key of
             None \<Rightarrow> default_regular_model st
           | Some k \<Rightarrow> if k = [] then default_regular_model st else k)
   \<and> resolved_model (fst (stream_respond st screate msgs key config)) =
     Some (case key of
             None \<Rightarrow> default_regular_model st
           | Some k \<Rightarrow> if k = [] then default_regular_model st else k)
   \<and> resolved_model (fst (respond_regular st create msgs config)) = Some (default_regular_model st)
   \<and> resolved_model (fst (stream_respond_regular st screate msgs config))
       = Some (default_regular_model st)
   \<and> chat_regular st create (as_regular (body\<lparr>req_model_key := client_key\<rparr>))
       = chat_regular st create (as_regular body)
   \<and> (default_vision_model st \<noteq> [] \<longrightarrow>
        resolved_model (fst (respond_vision st create msgs config))
          = Some (default_vision_model st)
        \<and> resolved_model (fst (stream_respond_vision st screate msgs config))
          = Some (default_vision_model st))
   \<and> chat_vision st create (as_vision (body\<lparr>req_model_key := client_key\<rparr>))
       = chat_vision st create (as_vision body)"
  by (simp add: fst_respond fst_stream_respond resolved_respond_params resolved_stream_params
        respond_regular_def respond_vision_def stream_respond_regular_def
        stream_respond_vision_def or_else_def as_regular_def as_vision_def Let_def
        split: option.splits)

section \<open>Concrete runs of the stream\<close>

theorem stream_ends_with_one_done_witness:
  "always (Inr ([text_chunk ''m1'' ''a'', text_chunk ''m1'' ''b'', text_chunk ''m1'' ''c'',
                 finish_chunk ''m1'' ''stop''], None))
     (stream_params settings_m1 [] None (None :: int config option))
     = Inr ([text_chunk ''m1'' ''a'', text_chunk ''m1'' ''b'', text_chunk ''m1'' ''c'',
             finish_chunk ''m1'' ''stop''], None)
   \<and> length (filter is_done (events (stream_respond settings_m1
         (always (Inr ([text_chunk ''m1'' ''a'', text_chunk ''m1'' ''b'', text_chunk ''m1'' ''c'',
                        finish_chunk ''m1'' ''stop''], None)))
         [] None (None :: int config option)))) = 1
   \<and> is_done (last (events (stream_respond settings_m1
         (always (Inr ([text_chunk ''m1'' ''a'', text_chunk ''m1'' ''b'', text_chunk ''m1'' ''c'',
                        finish_chunk ''m1'' ''stop''], None)))
         [] None (None :: int config option))))"
  using stream_ends_with_one_done
    [where create = "always (Inr ([text_chunk ''m1'' ''a'', text_chunk ''m1'' ''b'',
                       text_chunk ''m1'' ''c'', finish_chunk ''m1'' ''stop''], None))"
       and st = settings_m1 and msgs = "[]" and key = None
       and cfg = "None :: int config option"
       and chunks = "[text_chunk ''m1'' ''a'', text_chunk ''m1'' ''b'',
                       text_chunk ''m1'' ''c'', finish_chunk ''m1'' ''stop'']"]
  by (simp add: always_def)

theorem stream_error_no_done_witness:
  "always (Inr ([text_chunk ''m1'' ''a''], Some (BackendError ''connection dropped'')))
     (stream_params settings_m1 [] None (None :: int config option))
     = Inr ([text_chunk ''m1'' ''a''], Some (BackendError ''connection dropped''))
   \<and> events (stream_respond settings_m1
         (always (Inr ([text_chunk ''m1'' ''a''], Some (BackendError ''connection dropped''))))
         [] None (None :: int config option)) = [Fragment ''a'']
   \<and> raised (stream_respond settings_m1
         (always (Inr ([text_chunk ''m1'' ''a''], Some (BackendError ''connection dropped''))))
         [] None (None :: int config option)) = Some (BackendError ''connection dropped'')"
  using stream_error_no_done
    [where create = "always (Inr ([text_chunk ''m1'' ''a''],
                       Some (BackendError ''connection dropped'')))"
       and st = settings_m1 and msgs = "[]" and key = None
       and cfg = "None :: int config option"
       and chunks = "[text_chunk ''m1'' ''a'']" and e = "BackendError ''connection dropped''"
       and N = 1]
  by (simp add: always_def text_chunk_def unit_text_def delta_text_def truthy_def)

lemma consume_three:
  "consume [text_chunk ''m1'' ''a'', text_chunk ''m1'' ''b'', text_chunk ''m1'' ''c'',
            finish_chunk ''m1'' ''stop''] init_state [] =
     (\<lparr> model_name = Some ''m1'', total_tokens = 3, last_finish = Some ''stop'' \<rparr>,
      [Fragment ''a'', Fragment ''b'', Fragment ''c''])"
  by (simp add: text_chunk_def finish_chunk_def init_state_def delta_text_def truthy_def Let_def)

lemma units_three:
  "first_of (List.map_filter unit_model
      [text_chunk ''m1'' ''a'', text_chunk ''m1'' ''b'', text_chunk ''m1'' ''c'',
       finish_chunk ''m1'' ''stop'']) = Some ''m1''"
  "last_of (List.map_filter unit_finish
      [text_chunk ''m1'' ''a'', text_chunk ''m1'' ''b'', text_chunk ''m1'' ''c'',
       finish_chunk ''m1'' ''stop'']) = Some ''stop''"
  by (simp_all add: text_chunk_def finish_chunk_def unit_model_def unit_finish_def truthy_def
        first_of_def last_of_def)

theorem done_event_contents_witness:
  "always (Inr ([text_chunk ''m1'' ''a'', text_chunk ''m1'' ''b'', text_chunk ''m1'' ''c'',
                 finish_chunk ''m1'' ''stop''], None))
     (stream_params settings_m1 [] (Some ''alias'') (None :: int config option))
     = Inr ([text_chunk ''m1'' ''a'', text_chunk ''m1'' ''b'', text_chunk ''m1'' ''c'',
             finish_chunk ''m1'' ''stop''], None)
   \<and> last (events (stream_respond settings_m1
         (always (Inr ([text_chunk ''m1'' ''a'', text_chunk ''m1'' ''b'', text_chunk ''m1'' ''c'',
                        finish_chunk ''m1'' ''stop''], None)))
         [] (Some ''alias'') (None :: int config option))) = Done ''m1'' (Some 3) (Some ''stop'')"
proof -
  let ?cs = "[text_chunk ''m1'' ''a'', text_chunk ''m1'' ''b'', text_chunk ''m1'' ''c'',
              finish_chunk ''m1'' ''stop'']"
  let ?run = "stream_respond settings_m1 (always (Inr (?cs, None))) [] (Some ''alias'')
                (None :: int config option)"
  have h: "always (Inr (?cs, None))
             (stream_params settings_m1 [] (Some ''alias'') (None :: int config option))
           = Inr (?cs, None)"
    by (simp add: always_def)
  have ev: "events ?run = [Fragment ''a'', Fragment ''b'', Fragment ''c'',
                           Done ''m1'' (Some 3) (Some ''stop'')]"
    by (simp add: always_def stream_respond_def events_def consume_three done_event_def
          or_else_def Let_def del: consume.simps)
  have n: "length (filter is_fragment (events ?run)) = 3"
    by (simp add: ev)
  from done_event_contents [of "always (Inr (?cs, None))" settings_m1 "[]" "Some ''alias''"
      "None :: int config option" ?cs, OF h]
  have "last (events ?run) = Done ''m1'' (Some 3) (Some ''stop'')"
    by (simp add: n units_three del: map_filter_simps)
  with h show ?thesis by simp
qed

theorem done_model_counterexample:
  "last (events (stream_respond settings_m1
           (always (Inr ([bare_chunk ''backend-name''], None)))
           [] (Some ''alias'') (None :: int config option))) = Done ''alias'' None None
   \<and> first_of (List.map_filter reported_model [bare_chunk ''backend-name''])
       = Some ''backend-name''"
  by (simp add: always_def stream_respond_def events_def done_event_def or_else_def Let_def
        bare_chunk_def init_state_def first_of_def reported_model_def truthy_def)

theorem model_resolution_counterexample:
  "resolved_model (fst (respond \<lparr> default_regular_model = ''m1'', default_vision_model = '''' \<rparr>
       (always (Inl (BackendError ''down''))) [] (Some '''') (None :: int config option)))
     = Some ''m1''
   \<and> resolved_model (fst (respond_vision
       \<lparr> default_regular_model = ''m1'', default_vision_model = '''' \<rparr>
       (always (Inl (BackendError ''down''))) [] (None :: int config option)))
     = Some ''m1''"
  by (simp add: fst_respond resolved_respond_params respond_vision_def or_else_def Let_def)

section \<open>Properties of \<open>respond\<close> and of the endpoints\<close>

lemma snd_respond:
  "snd (respond st create msgs key config) =
     (case create (respond_params st msgs key config) of
        Inl e \<Rightarrow> Inl e
      | Inr r \<Rightarrow> completion_result r)"
  by (simp add: respond_def Let_def)

text \<open>
  Claim C8. For every successful backend response (one with a first choice),
  \<open>respond\<close> returns a result whose model is the model name the backend reports,
  whatever key was requested, whose content and stop reason are the text and the finish
  reason of the first choice, and whose predicted tokens are the completion token count
  of the usage when the backend reports usage, and absent otherwise.
\<close>

theorem respond_result:
  assumes "create (respond_params st msgs key config) = Inr r"
    and "response_choices r = c # cs"
  shows "snd (respond st create msgs key config) =
           Inr \<lparr> res_model = response_model r,
                 res_content = message_content c,
                 res_stop_reason = choice_finish_reason c,
                 res_predicted_tokens = map_option completion_tokens (response_usage r) \<rparr>"
  using assms by (simp add: snd_respond completion_result_def split: option.splits)

theorem respond_result_witness:
  "always (Inr (echo_response ''m1'' ''hi'')) (respond_params settings_m1 [] (Some ''alias'')
       (None :: int config option)) = Inr (echo_response ''m1'' ''hi'')
   \<and> snd (respond settings_m1 (always (Inr (echo_response ''m1'' ''hi''))) [] (Some ''alias'')
       (None :: int config option)) =
     Inr \<lparr> res_model = ''m1'', res_content = Some ''hi'', res_stop_reason = Some ''stop'',
           res_predicted_tokens = Some 1 \<rparr>"
  using respond_result
    [where create = "always (Inr (echo_response ''m1'' ''hi''))" and st = settings_m1
       and msgs = "[]" and key = "Some ''alias''" and config = "None :: int config option"
       and r = "echo_response ''m1'' ''hi''"
       and c = "\<lparr> message_content = Some ''hi'', choice_finish_reason = Some ''stop'' \<rparr>"
       and cs = "[]"]
  by (simp add: always_def echo_response_def)

lemma chat_try_eq:
  "chat_try st create req =
     (case create (chat_params st req) of Inl e \<Rightarrow> Inl e | Inr r \<Rightarrow> completion_result r)"
  by (simp add: chat_try_def chat_params_def snd_respond Let_def)

lemma chat_raised_None_iff:
  "chat_raised st create req = None \<longleftrightarrow>
     (\<exists>r c cs t. create (chat_params st req) = Inr r \<and> response_choices r = c # cs
        \<and> message_content c = Some t)"
  by (auto simp: chat_raised_def chat_try_eq completion_result_def new_ChatResponse_def
           split: sum.splits list.splits option.splits)

lemma chat_regular_as_chat:
  "chat_regular st create req =
     chat st create \<lparr> req_model_key = Some (default_regular_model st),
                       req_messages = reg_messages req, req_config = reg_config req \<rparr>"
  by (simp add: chat_regular_def chat_def chat_try_def respond_regular_def Let_def)

lemma chat_vision_as_chat:
  "chat_vision st create req =
     chat st create \<lparr> req_model_key = Some (default_vision_model st),
                       req_messages = vis_messages req, req_config = vis_config req \<rparr>"
  by (simp add: chat_vision_def chat_def chat_try_def respond_vision_def Let_def)

lemma chat_Returned_iff:
  "chat st create req = Returned body \<longleftrightarrow>
     (\<exists>r c cs t. create (chat_params st req) = Inr r \<and> response_choices r = c # cs
        \<and> message_content c = Some t
        \<and> body = \<lparr> resp_model = response_model r, resp_content = t,
                    resp_stop_reason = choice_finish_reason c,
                    resp_predicted_tokens = map_option completion_tokens (response_usage r) \<rparr>)"
proof (cases "create (chat_params st req)")
  case (Inl e)
  then show ?thesis by (simp add: chat_def chat_try_eq)
next
  case (Inr r)
  show ?thesis
  proof (cases "response_choices r")
    case Nil
    with Inr show ?thesis by (simp add: chat_def chat_try_eq completion_result_def)
  next
    case (Cons c cs)
    show ?thesis
    proof (cases "message_content c")
      case None
      with Inr Cons show ?thesis
        by (simp add: chat_def chat_try_eq completion_result_def new_ChatResponse_def)
    next
      case (Some t)
      with Inr Cons show ?thesis
        by (cases "response_usage r")
           (auto simp: chat_def chat_try_eq completion_result_def new_ChatResponse_def)
    qed
  qed
qed

text \<open>
  Claim C9. For every non-streaming request: if the backend call raises, and more
  generally if anything inside the \<open>try\<close> block raises, the handler answers with
  \<open>HTTPException\<close> 503, which carries no result; and the handler returns the completion
  body exactly when no error was raised. The body returned is the completion: the
  model name the backend reports, the text and the finish reason of the first choice,
  and the completion token count of the usage, if any. No error is raised exactly when
  the backend returns a response with a first choice whose content is a string: the
  errors are the backend's, the index error of an empty choice list (both inside the
  \<open>try\<close> block), and the validation error of \<open>ChatResponse\<close> for a content that is
  \<open>None\<close> (after it, so it leaves the handler uncaught). The handlers of the regular
  and the vision endpoint are the same handler with the model key set to the
  configured default.
\<close>

theorem chat_503_or_body:
  "(create (chat_params st req) = Inl e \<longrightarrow> chat st create req = HTTPException 503 e)
   \<and> (chat_try st create req = Inl e \<longrightarrow> chat st create req = HTTPException 503 e)
   \<and> ((\<exists>body. chat st create req = Returned body) \<longleftrightarrow> chat_raised st create req = None)
   \<and> (chat_raised st create req = None \<longleftrightarrow>
        (\<exists>r c cs t. create (chat_params st req) = Inr r \<and> response_choices r = c # cs
           \<and> message_content c = Some t))
   \<and> (chat st create req = Returned body \<longleftrightarrow>
        (\<exists>r c cs t. create (chat_params st req) = Inr r \<and> response_choices r = c # cs
           \<and> message_content c = Some t
           \<and> body = \<lparr> resp_model = response_model r, resp_content = t,
                       resp_stop_reason = choice_finish_reason c,
                       resp_predicted_tokens =
                         map_option completion_tokens (response_usage r) \<rparr>))
   \<and> chat_regular st create rreq =
        chat st create \<lparr> req_model_key = Some (default_regular_model st),
                          req_messages = reg_messages rreq, req_config = reg_config rreq \<rparr>
   \<and> chat_vision st create vreq =
        chat st create \<lparr> req_model_key = Some (default_vision_model st),
                          req_messages = vis_messages vreq, req_config = vis_config vreq \<rparr>"
proof -
  have a: "create (chat_params st req) = Inl e \<longrightarrow> chat st create req = HTTPException 503 e"
    by (simp add: chat_def chat_try_eq)
  have b: "chat_try st create req = Inl e \<longrightarrow> chat st create req = HTTPException 503 e"
    by (simp add: chat_def)
  have c: "(\<exists>body. chat st create req = Returned body) \<longleftrightarrow> chat_raised st create req = None"
    by (auto simp: chat_def chat_raised_def split: sum.splits)
  show ?thesis
    using a b c chat_raised_None_iff [of st create req]
      chat_Returned_iff [of st create req body]
      chat_regular_as_chat [of st create rreq] chat_vision_as_chat [of st create vreq]
    by blast
qed

theorem chat_503_or_body_witness:
  "chat settings_m1 (always (Inl (BackendError ''down'')))
     \<lparr> req_model_key = None, req_messages = [], req_config = (None :: int ChatConfig option) \<rparr>
     = HTTPException 503 (BackendError ''down'')
   \<and> chat settings_m1 (always (Inr (echo_response ''m1'' ''hi'')))
     \<lparr> req_model_key = Some ''alias'', req_messages = [],
       req_config = (None :: int ChatConfig option) \<rparr>
     = Returned \<lparr> resp_model = ''m1'', resp_content = ''hi'', resp_stop_reason = Some ''stop'',
                  resp_predicted_tokens = Some 1 \<rparr>"
proof -
  have down: "chat settings_m1 (always (Inl (BackendError ''down'')))
      \<lparr> req_model_key = None, req_messages = [], req_config = (None :: int ChatConfig option) \<rparr>
      = HTTPException 503 (BackendError ''down'')"
    using chat_503_or_body
      [where create = "always (Inl (BackendError ''down''))" and st = settings_m1
         and req = "\<lparr> req_model_key = None, req_messages = [],
                      req_config = (None :: int ChatConfig option) \<rparr>"
         and e = "BackendError ''down''"]
    by (simp add: always_def)
  have up: "chat settings_m1 (always (Inr (echo_response ''m1'' ''hi'')))
      \<lparr> req_model_key = Some ''alias'', req_messages = [],
        req_config = (None :: int ChatConfig option) \<rparr>
      = Returned \<lparr> resp_model = ''m1'', resp_content = ''hi'', resp_stop_reason = Some ''stop'',
                   resp_predicted_tokens = Some 1 \<rparr>"
    using chat_503_or_body
      [where create = "always (Inr (echo_response ''m1'' ''hi''))" and st = settings_m1
         and req = "\<lparr> req_model_key = Some ''alias'', req_messages = [],
                      req_config = (None :: int ChatConfig option) \<rparr>"
         and body = "\<lparr> resp_model = ''m1'', resp_content = ''hi'',
                       resp_stop_reason = Some ''stop'', resp_predicted_tokens = Some 1 \<rparr>"]
    by (simp add: always_def echo_response_def)
  from down up show ?thesis by simp
qed

lemma chat_none_content:
  "chat settings_m1
     (always (Inr \<lparr> response_model = ''m1'',
                    response_choices = [\<lparr> message_content = None,
                                          choice_finish_reason = Some ''stop'' \<rparr>],
                    response_usage = None \<rparr>))
     \<lparr> req_model_key = None, req_messages = [], req_config = (None :: int ChatConfig option) \<rparr>
     = Uncaught ValidationError"
  by (simp add: chat_def chat_try_eq always_def completion_result_def new_ChatResponse_def)

section \<open>The mime type of an attachment\<close>

lemma format_message_parts:
  assumes "turn_images msg \<noteq> []"
  shows "format_message msg =
           Formatted (turn_role msg)
             (Parts ((if turn_text msg \<noteq> [] then [TextPart (turn_text msg)] else [])
                     @ map image_part (filter has_data (turn_images msg))))"
  using assms
  by (simp add: format_message_def add_images_filter turn_images_def turn_text_def
        turn_role_def dict_get_def Let_def split: entry.splits option.splits)

text \<open>
  Claim C10. The default \<open>image/jpeg\<close> is used only for an attachment whose
  \<open>mime_type\<close> key is missing (see \<open>image_mime\<close>). For every attachment with
  non-empty data whose \<open>mime_type\<close> key is present with the value \<open>None\<close>,
  \<open>build_messages\<close> emits, at the attachment's place among the image parts, the URL
  \<^verbatim>\<open>data:None;base64,\<close> followed by the data.
\<close>

theorem mime_none_not_defaulted:
  assumes "mime_type img = Present None"
    and "data_base64 img = Present (Some d)" and "d \<noteq> []"
    and "turn_images msg = pre @ img # post"
  shows "build_messages [msg] =
           [Formatted (turn_role msg)
              (Parts ((if turn_text msg \<noteq> [] then [TextPart (turn_text msg)] else [])
                      @ map image_part (filter has_data pre)
                      @ ImageUrlPart (''data:None;base64,'' @ d)
                      # map image_part (filter has_data post)))]"
proof -
  have hd: "has_data img"
    using assms(2,3) by (simp add: has_data_def)
  have ip: "image_part img = ImageUrlPart (''data:None;base64,'' @ d)"
    using assms(1,2) by (simp add: image_part_def image_mime_def image_data_def str_of_def)
  have ne: "turn_images msg \<noteq> []"
    using assms(4) by simp
  show ?thesis
    by (simp add: build_messages_def format_message_parts [OF ne] assms(4) hd ip)
qed

theorem mime_none_not_defaulted_witness:
  "build_messages
     [dump_message \<lparr> msg_role = ''user'', msg_content = ''describe'',
                     msg_images = [\<lparr> img_data_base64 = ''QQ=='', img_mime_type = None \<rparr>] \<rparr>]
   = [Formatted ''user'' (Parts [TextPart ''describe'', ImageUrlPart ''data:None;base64,QQ==''])]"
  using mime_none_not_defaulted
    [where img = "dump_image \<lparr> img_data_base64 = ''QQ=='', img_mime_type = None \<rparr>"
       and d = "''QQ==''" and pre = "[]" and post = "[]"
       and msg = "dump_message \<lparr> msg_role = ''user'', msg_content = ''describe'',
                     msg_images = [\<lparr> img_data_base64 = ''QQ=='', img_mime_type = None \<rparr>] \<rparr>"]
  by (simp add: dump_message_def dump_image_def turn_images_def turn_role_def turn_text_def)

section \<open>Concrete messages and parameters\<close>

theorem format_message_forms_witness:
  "format_message
     (dump_message \<lparr> msg_role = ''user'', msg_content = ''describe'',
        msg_images = [\<lparr> img_data_base64 = ''QQ=='', img_mime_type = Some ''image/png'' \<rparr>] \<rparr>)
   = Formatted ''user''
       (Parts [TextPart ''describe'', ImageUrlPart ''data:image/png;base64,QQ==''])"
  using format_message_forms
    [of "dump_message \<lparr> msg_role = ''user'', msg_content = ''describe'',
        msg_images = [\<lparr> img_data_base64 = ''QQ=='', img_mime_type = Some ''image/png'' \<rparr>] \<rparr>"]
  by (simp add: dump_message_def dump_image_def turn_images_def turn_role_def turn_text_def
        has_data_def image_part_def image_mime_def image_data_def str_of_def)

theorem build_messages_one_per_turn_witness:
  "build_messages
     [\<lparr> role = Present ''system'', content = Present ''be brief'', images = Absent \<rparr>,
      \<lparr> role = Present ''narrator'', content = Absent, images = Present None \<rparr>,
      \<lparr> role = Absent, content = Present ''look'',
        images = Present (Some [\<lparr> data_base64 = Absent, mime_type = Absent \<rparr>,
                                \<lparr> data_base64 = Present (Some ''QQ==''), mime_type = Absent \<rparr>]) \<rparr>]
   = [Formatted ''system'' (Text ''be brief''),
      Formatted ''narrator'' (Text ''''),
      Formatted ''user'' (Parts [TextPart ''look'', ImageUrlPart ''data:image/jpeg;base64,QQ==''])]"
  using build_messages_one_per_turn
    [of "[\<lparr> role = Present ''system'', content = Present ''be brief'', images = Absent \<rparr>,
      \<lparr> role = Present ''narrator'', content = Absent, images = Present None \<rparr>,
      \<lparr> role = Absent, content = Present ''look'',
        images = Present (Some [\<lparr> data_base64 = Absent, mime_type = Absent \<rparr>,
                                \<lparr> data_base64 = Present (Some ''QQ==''), mime_type = Absent \<rparr>]) \<rparr>]"]
  by (simp add: format_message_def dict_get_def truthy_def data_url_def str_of_def Let_def)

theorem generation_params_exact_witness:
  "dom (generation_params (fst (respond settings_m1 (always (Inl (BackendError ''down''))) [] None
      (Some (dump_config \<lparr> temperature = Some (7 :: int), maxTokens = Some 100, topP = None,
                            presencePenalty = None, frequencyPenalty = None \<rparr>)))))
     = {''temperature'', ''max_tokens''}
   \<and> fst (respond settings_m1 (always (Inl (BackendError ''down''))) [] None
      (Some (dump_config \<lparr> temperature = Some (7 :: int), maxTokens = Some 100, topP = None,
                            presencePenalty = None, frequencyPenalty = None \<rparr>))) ''max_tokens''
     = Some (PValue 100)"
  using generation_params_exact
    [where st = settings_m1 and create = "always (Inl (BackendError ''down''))"
       and screate = "always (Inl (BackendError ''down''))"
       and msgs = "[]" and key = None
       and config = "Some (dump_config \<lparr> temperature = Some (7 :: int), maxTokens = Some 100,
                       topP = None, presencePenalty = None, frequencyPenalty = None \<rparr>)"]
  by (auto simp add: passes_verbatim_def expected_keys_def renaming_def cfg_of_def dump_config_def)

theorem model_resolution_witness:
  "default_vision_model settings_m1 \<noteq> []
   \<and> resolved_model (fst (respond settings_m1 (always (Inl (BackendError ''down''))) []
      (Some ''alias'') (None :: int config option))) = Some ''alias''
   \<and> resolved_model (fst (respond_regular settings_m1 (always (Inl (BackendError ''down''))) []
      (None :: int config option))) = Some ''m1''
   \<and> resolved_model (fst (respond_vision settings_m1 (always (Inl (BackendError ''down''))) []
      (None :: int config option))) = Some ''v1''
   \<and> resolved_model (fst (stream_respond_vision settings_m1
      (always (Inl (BackendError ''down''))) [] (None :: int config option))) = Some ''v1''"
  using model_resolution
    [where st = settings_m1 and create = "always (Inl (BackendError ''down''))"
       and screate = "always (Inl (BackendError ''down''))"
       and msgs = "[]" and key = "Some ''alias''" and config = "None :: int config option"]
  by (simp add: settings_m1_def)

end
